theory Spec2Isabelle
  imports Main "HOL-Library.Sublist"
begin

section \<open>Data model of package cve5 and of the report types it translates\<close>

text \<open>
  Go strings are byte sequences, modelled as \<open>string\<close> (a list of 8-bit characters).
  \<open>Version\<close> and \<open>VersionStatus\<close> are named string types in the source; a nil slice and
  an empty slice are both the empty list.
\<close>

type_synonym Version = string
type_synonym VersionStatus = string

text \<open>
  Modelled from the spec: the constants \<open>StatusAffected\<close> and \<open>StatusUnaffected\<close> are
  declared with the types of package cve5, in a file that is not among the sources. The
  spec names the two statuses Affected and Unaffected; the values are the tokens of the
  CVE JSON 5.0 schema.
\<close>

definition StatusAffected :: VersionStatus where
  "StatusAffected = ''affected''"

definition StatusUnaffected :: VersionStatus where
  "StatusUnaffected = ''unaffected''"

definition typeSemver :: string where
  "typeSemver = ''semver''"

definition versionZero :: string where
  "versionZero = ''0''"

text \<open>\<open>report.VersionRange\<close>: the internal range, two plain strings.\<close>

record report_VersionRange =
  report_Introduced :: string
  report_Fixed :: string

text \<open>\<open>cve5.VersionRange\<close>: the external range, with the fields the code reads and writes.\<close>

record VersionRange =
  Introduced :: Version
  Fixed :: Version
  LessThanOrEqual :: Version
  Status :: VersionStatus
  VersionType :: string

text \<open>The zero value \<open>VersionRange{}\<close>.\<close>

definition zeroVersionRange :: VersionRange where
  "zeroVersionRange =
     \<lparr>Introduced = [], Fixed = [], LessThanOrEqual = [], Status = [], VersionType = []\<rparr>"

record UnsupportedVersion =
  Version :: string
  Type :: string

section \<open>Range Normalizer: versionRangeToVersionRange\<close>

text \<open>
  The loop of the open-tail branch. Its state is the range under construction (\<open>current\<close>)
  and the slice built so far (\<open>cveVRs\<close>); the function returns the slice at the end of the
  loop.
\<close>

fun unaffectedLoop ::
  "report_VersionRange list \<Rightarrow> VersionRange \<Rightarrow> VersionRange list \<Rightarrow> VersionRange list" where
  "unaffectedLoop [] current cveVRs = cveVRs"
| "unaffectedLoop (vr # rest) current cveVRs =
     (if report_Introduced vr \<noteq> [] then
        (let current1 = (if Introduced current = [] then current\<lparr>Introduced := versionZero\<rparr>
                         else current);
             current2 = current1\<lparr>Fixed := report_Introduced vr, Status := StatusUnaffected,
                                 VersionType := typeSemver\<rparr>;
             cveVRs' = cveVRs @ [current2];
             current3 = zeroVersionRange
         in if report_Fixed vr \<noteq> []
            then unaffectedLoop rest (current3\<lparr>Introduced := report_Fixed vr\<rparr>) cveVRs'
            else unaffectedLoop rest current3 cveVRs')
      else if report_Fixed vr \<noteq> []
           then unaffectedLoop rest (current\<lparr>Introduced := report_Fixed vr\<rparr>) cveVRs
           else unaffectedLoop rest current cveVRs)"

text \<open>The body of the loop of the closed branch: one affected range per internal range.\<close>

definition affectedRange :: "report_VersionRange \<Rightarrow> VersionRange" where
  "affectedRange vr =
     (let cveVR = zeroVersionRange\<lparr>Status := StatusAffected, VersionType := typeSemver\<rparr>;
          cveVR1 = (if report_Introduced vr \<noteq> []
                    then cveVR\<lparr>Introduced := report_Introduced vr\<rparr>
                    else cveVR\<lparr>Introduced := versionZero\<rparr>)
      in if report_Fixed vr \<noteq> [] then cveVR1\<lparr>Fixed := report_Fixed vr\<rparr> else cveVR1)"

definition versionRangeToVersionRange ::
  "report_VersionRange list \<Rightarrow> VersionRange list \<times> VersionStatus" where
  "versionRangeToVersionRange versions =
     (if length versions = 0 then ([], StatusAffected)
      else if report_Fixed (versions ! (length versions - 1)) = []
           then (unaffectedLoop versions zeroVersionRange [], StatusAffected)
           else (map affectedRange versions, StatusUnaffected))"

section \<open>Range Recoverer: convertVersions, toVersionRange, toUnsupported\<close>

subsection \<open>The two repair patterns\<close>

text \<open>
  The two regular expressions are anchored at both ends, so \<open>FindStringSubmatch\<close> either
  fails (a nil slice) or matches the whole string and returns it with its groups; the model
  returns the groups. In Go's syntax \<open>.\<close> matches every character but the newline, and a
  greedy \<open>(.+)\<close> takes the longest text for which the rest of the pattern still matches:
  \<open>splitIntroducedFixed\<close> tries the candidates for the first group from the longest to the
  shortest.
\<close>

definition newline :: char where
  "newline = CHR 0x0A"

fun splitIntroducedFixed :: "nat \<Rightarrow> string \<Rightarrow> (string \<times> string) option" where
  "splitIntroducedFixed 0 s = None"
| "splitIntroducedFixed (Suc k) s =
     (if take 4 (drop (Suc k) s) = '', < '' \<and> drop (Suc k + 4) s \<noteq> []
      then Some (take (Suc k) s, drop (Suc k + 4) s)
      else splitIntroducedFixed k s)"

text \<open>\<open>introducedFixedRE = ^>= (.+), < (.+)$\<close>\<close>

definition introducedFixedRE :: "string \<Rightarrow> (string \<times> string) option" where
  "introducedFixedRE s =
     (if take 3 s = ''>= '' \<and> newline \<notin> set s
      then splitIntroducedFixed (length s - 3) (drop 3 s)
      else None)"

text \<open>\<open>fixedRE = ^< (.+)$\<close>\<close>

definition fixedRE :: "string \<Rightarrow> string option" where
  "fixedRE s =
     (if take 2 s = ''< '' \<and> drop 2 s \<noteq> [] \<and> newline \<notin> set s
      then Some (drop 2 s)
      else None)"

subsection \<open>Conversion of one external range\<close>

text \<open>
  \<open>version.IsValid\<close> belongs to package internal/version, which is not among the sources:
  the functions that call it take it as the parameter \<open>isValid\<close>. The result of
  \<open>toVersionRange\<close> is \<open>None\<close> where the source returns \<open>(nil, false)\<close>.
\<close>

definition toVersionRange ::
  "(string \<Rightarrow> bool) \<Rightarrow> VersionRange \<Rightarrow> VersionStatus \<Rightarrow> report_VersionRange option" where
  "toVersionRange isValid cvr defaultStatus =
     (case introducedFixedRE (Introduced cvr) of
        Some (m1, m2) \<Rightarrow> Some \<lparr>report_Introduced = m1, report_Fixed = m2\<rparr>
      | None \<Rightarrow>
          (case fixedRE (Introduced cvr) of
             Some m1 \<Rightarrow> Some \<lparr>report_Introduced = [], report_Fixed = m1\<rparr>
           | None \<Rightarrow>
               if VersionType cvr \<noteq> typeSemver \<or>
                  LessThanOrEqual cvr \<noteq> [] \<or>
                  \<not> isValid (Introduced cvr) \<or>
                  \<not> isValid (Fixed cvr) \<or>
                  Status cvr \<noteq> StatusAffected \<or>
                  defaultStatus \<noteq> StatusUnaffected
               then None
               else (let introduced = (if Introduced cvr = ''0'' then [] else Introduced cvr)
                     in Some \<lparr>report_Introduced = introduced, report_Fixed = Fixed cvr\<rparr>)))"

text \<open>
  \<open>fmt.Sprintf\<close> with the verb \<open>%s\<close> writes a value of a string type as it is, so the
  formatted text is a concatenation.
\<close>

definition toUnsupported :: "VersionRange \<Rightarrow> VersionStatus \<Rightarrow> UnsupportedVersion" where
  "toUnsupported cvr defaultStatus =
     (let version =
            (if Fixed cvr \<noteq> []
             then Status cvr @ '' from '' @ Introduced cvr @ '' before '' @ Fixed cvr
             else if LessThanOrEqual cvr \<noteq> []
             then Status cvr @ '' from '' @ Introduced cvr @ '' to '' @ Fixed cvr
             else Status cvr @ '' at '' @ Introduced cvr);
          version' =
            (if defaultStatus \<noteq> []
             then version @ '' (default: '' @ defaultStatus @ '')''
             else version)
      in \<lparr>Version = version', Type = ''cve_version_range''\<rparr>)"

text \<open>The loop of \<open>convertVersions\<close>, with the two slices it appends to as accumulators.\<close>

fun convertLoop ::
  "(string \<Rightarrow> bool) \<Rightarrow> VersionStatus \<Rightarrow> VersionRange list \<Rightarrow>
   report_VersionRange list \<Rightarrow> UnsupportedVersion list \<Rightarrow>
   report_VersionRange list \<times> UnsupportedVersion list" where
  "convertLoop isValid defaultStatus [] vs uvs = (vs, uvs)"
| "convertLoop isValid defaultStatus (vr # vrs) vs uvs =
     (if Introduced vr = ''n/a'' then convertLoop isValid defaultStatus vrs vs uvs
      else (case toVersionRange isValid vr defaultStatus of
              Some v \<Rightarrow> convertLoop isValid defaultStatus vrs (vs @ [v]) uvs
            | None \<Rightarrow>
                convertLoop isValid defaultStatus vrs vs (uvs @ [toUnsupported vr defaultStatus])))"

definition convertVersions ::
  "(string \<Rightarrow> bool) \<Rightarrow> VersionRange list \<Rightarrow> VersionStatus \<Rightarrow>
   report_VersionRange list \<times> UnsupportedVersion list" where
  "convertVersions isValid vrs defaultStatus = convertLoop isValid defaultStatus vrs [] []"

subsection \<open>Validity of a version\<close>

text \<open>
  Modelled from the spec: \<open>version.IsValid\<close> (package internal/version) is not among the
  sources. The spec calls a version valid when it parses under the semantic-version
  grammar, and has the Normalizer write the token \<open>0\<close> for the Recoverer to read back as
  a valid version. The grammar below is the one of Go module versions without their
  leading \<open>v\<close>: \<open>MAJOR[.MINOR[.PATCH[-PRERELEASE][+BUILD]]]\<close>, numbers without leading
  zeros, identifiers non-empty, made of letters, digits and hyphens and separated by dots.
\<close>

definition isDigit :: "char \<Rightarrow> bool" where
  "isDigit c = (c \<in> set ''0123456789'')"

definition isIdentChar :: "char \<Rightarrow> bool" where
  "isIdentChar c =
     (c \<in> set ''ABCDEFGHIJKLMNOPQRSTUVWXYZabcdefghijklmnopqrstuvwxyz0123456789-'')"

definition parseInt :: "string \<Rightarrow> (string \<times> string) option" where
  "parseInt v =
     (let t = takeWhile isDigit v in
      if t = [] then None
      else if hd t = CHR ''0'' \<and> length t \<noteq> 1 then None
      else Some (t, dropWhile isDigit v))"

fun splitOn :: "char \<Rightarrow> string \<Rightarrow> string list" where
  "splitOn sep [] = [[]]"
| "splitOn sep (c # cs) =
     (if c = sep then [] # splitOn sep cs
      else (case splitOn sep cs of [] \<Rightarrow> [[c]] | w # ws \<Rightarrow> (c # w) # ws))"

definition isBadNum :: "string \<Rightarrow> bool" where
  "isBadNum v = (list_all isDigit v \<and> 1 < length v \<and> hd v = CHR ''0'')"

definition validPrerelease :: "string \<Rightarrow> bool" where
  "validPrerelease s =
     list_all (\<lambda>ident. ident \<noteq> [] \<and> list_all isIdentChar ident \<and> \<not> isBadNum ident)
       (splitOn (CHR ''.'') s)"

definition validBuild :: "string \<Rightarrow> bool" where
  "validBuild s =
     list_all (\<lambda>ident. ident \<noteq> [] \<and> list_all isIdentChar ident) (splitOn (CHR ''.'') s)"

definition validSuffix :: "string \<Rightarrow> bool" where
  "validSuffix r =
     (case r of
        [] \<Rightarrow> True
      | c # cs \<Rightarrow>
          if c = CHR ''-'' then
            validPrerelease (takeWhile (\<lambda>x. x \<noteq> CHR ''+'') cs) \<and>
            (case dropWhile (\<lambda>x. x \<noteq> CHR ''+'') cs of
               [] \<Rightarrow> True
             | p # build \<Rightarrow> validBuild build)
          else if c = CHR ''+'' then validBuild cs
          else False)"

text \<open>
  Modelled from the spec: \<open>version.IsValid\<close>, which accepts the strings of the grammar
  above.
\<close>

definition IsValid :: "string \<Rightarrow> bool" where
  "IsValid v =
     (case parseInt v of
        None \<Rightarrow> False
      | Some (major, r1) \<Rightarrow>
          (case r1 of
             [] \<Rightarrow> True
           | c1 # v1 \<Rightarrow>
               if c1 \<noteq> CHR ''.'' then False
               else (case parseInt v1 of
                       None \<Rightarrow> False
                     | Some (minor, r2) \<Rightarrow>
                         (case r2 of
                            [] \<Rightarrow> True
                          | c2 # v2 \<Rightarrow>
                              if c2 \<noteq> CHR ''.'' then False
                              else (case parseInt v2 of
                                      None \<Rightarrow> False
                                    | Some (patch, r3) \<Rightarrow> validSuffix r3)))))"

subsection \<open>The open-tail encoding in closed form\<close>





section \<open>Path Resolver: affectedToModule\<close>

record ProgramRoutine =
  Name :: string

record Affected =
  Vendor :: string
  Product :: string
  CollectionURL :: string
  PackageName :: string
  Versions :: "VersionRange list"
  DefaultStatus :: VersionStatus
  Platforms :: "string list"
  ProgramRoutines :: "ProgramRoutine list"

text \<open>\<open>report.Package\<close> and \<open>report.Module\<close>, with the fields the code reads and writes.\<close>

record report_Package =
  Package :: string
  Symbols :: "string list"
  GOOS :: "string list"

record report_Module =
  Module :: string
  report_Versions :: "report_VersionRange list"
  UnsupportedVersions :: "UnsupportedVersion list"
  Packages :: "report_Package list"

text \<open>
  Package internal/stdlib is not among the sources: its function \<open>Contains\<close> and its
  constants \<open>ToolchainModulePath\<close> and \<open>ModulePath\<close> are parameters, held in one record.
\<close>

record stdlib =
  stdlib_Contains :: "string \<Rightarrow> bool"
  stdlib_ToolchainModulePath :: string
  stdlib_ModulePath :: string

text \<open>\<open>strings.HasSuffix\<close> and \<open>strings.HasPrefix\<close> of the Go library.\<close>

definition HasSuffix :: "string \<Rightarrow> string \<Rightarrow> bool" where
  "HasSuffix s suff = (length suff \<le> length s \<and> drop (length s - length suff) s = suff)"

definition HasPrefix :: "string \<Rightarrow> string \<Rightarrow> bool" where
  "HasPrefix s pre = (length pre \<le> length s \<and> take (length pre) s = pre)"

definition isSet :: "string \<Rightarrow> bool" where
  "isSet s = (s \<noteq> [] \<and> s \<noteq> ''n/a'')"

definition affectedToModule ::
  "(string \<Rightarrow> bool) \<Rightarrow> stdlib \<Rightarrow> Affected \<Rightarrow> string \<Rightarrow> report_Module" where
  "affectedToModule isValid std a modulePath =
     (let pkgPath = (if isSet (PackageName a) then PackageName a
                     else if isSet (Product a) then Product a
                     else if isSet (Vendor a) then Vendor a
                     else modulePath);
          pkgPath' = (if HasSuffix modulePath pkgPath then modulePath else pkgPath);
          modulePath' =
            (if stdlib_Contains std pkgPath'
             then (if HasPrefix pkgPath' (stdlib_ToolchainModulePath std)
                   then stdlib_ToolchainModulePath std
                   else stdlib_ModulePath std)
             else modulePath);
          symbols = map Name (ProgramRoutines a);
          (vs, uvs) = convertVersions isValid (Versions a) (DefaultStatus a)
      in \<lparr>Module = modulePath',
          report_Versions = vs,
          UnsupportedVersions = uvs,
          Packages = [\<lparr>Package = pkgPath', Symbols = symbols, GOOS = Platforms a\<rparr>]\<rparr>)"

text \<open>
  The resolution order in the words of the spec: the package name if it is set and not
  the sentinel, else the product, else the vendor, else the module path hint.
\<close>

definition resolvedPath :: "Affected \<Rightarrow> string \<Rightarrow> string" where
  "resolvedPath a hint =
     (case filter (\<lambda>s. s \<noteq> [] \<and> s \<noteq> ''n/a'') [PackageName a, Product a, Vendor a] of
        [] \<Rightarrow> hint
      | s # _ \<Rightarrow> s)"

section \<open>Record Assembler: FromReport\<close>

text \<open>The types of package report that \<open>FromReport\<close> reads.\<close>

record report_Reference =
  report_URL :: string

record CVEMeta =
  CVEMeta_ID :: string
  CVEMeta_CWE :: string
  CVEMeta_Description :: string
  CVEMeta_References :: "string list"

text \<open>
  \<open>r.CVEMetadata\<close> is a pointer that the code tests against nil: it is an option. The
  report itself and the modules, packages and references it holds are taken to be there
  (the code dereferences them without a test).
\<close>

record Report =
  ID :: string
  Modules :: "report_Module list"
  Summary :: string
  Description :: string
  Credits :: "string list"
  References :: "report_Reference list"
  CVEMetadata :: "CVEMeta option"

text \<open>The types of the CVE JSON 5.0 record that \<open>FromReport\<close> builds.\<close>

record ProviderMetadata =
  OrgID :: string

record cve_Description =
  Description_Lang :: string
  Description_Value :: string

record ProblemTypeDescription =
  ProblemType_Lang :: string
  ProblemType_Description :: string

record ProblemType =
  ProblemType_Descriptions :: "ProblemTypeDescription list"

record Reference =
  URL :: string

record Credit =
  Credit_Lang :: string
  Credit_Value :: string

record CNAPublishedContainer =
  CNA_ProviderMetadata :: ProviderMetadata
  CNA_Title :: string
  CNA_Descriptions :: "cve_Description list"
  CNA_ProblemTypes :: "ProblemType list"
  CNA_Affected :: "Affected list"
  CNA_References :: "Reference list"
  CNA_Credits :: "Credit list"

record Metadata =
  Metadata_ID :: string

record Containers =
  CNAContainer :: CNAPublishedContainer

record CVERecord =
  DataType :: string
  DataVersion :: string
  CVERecord_Metadata :: Metadata
  CVERecord_Containers :: Containers

definition GoOrgUUID :: string where
  "GoOrgUUID = ''1bb62c36-49e3-4200-9d77-64a1400537cc''"

text \<open>
  The functions of package report that \<open>FromReport\<close> calls are not among the sources;
  they are parameters, held in one record.
\<close>

record report_functions =
  report_RemoveNewlines :: "string \<Rightarrow> string"
  report_Vendor :: "string \<Rightarrow> string"
  report_GoAdvisory :: "string \<Rightarrow> string"
  Summary_String :: "string \<Rightarrow> string"
  Description_String :: "string \<Rightarrow> string"
  Package_AllSymbols :: "report_Package \<Rightarrow> string list"

text \<open>
  An error is either made by \<open>errors.New\<close> or wraps another error, with the format
  and the arguments of the wrapping call kept as they are passed.
\<close>

datatype error = errors_New string | Wrapped string "string list" error

text \<open>
  Modelled from the spec: \<open>derrors.Wrap\<close> (package internal/derrors) is not among the
  sources. By the spec a failure is surfaced as a wrapped error naming the report
  identifier: a nil error is left alone, any other one is wrapped.
\<close>

definition derrors_Wrap :: "error option \<Rightarrow> string \<Rightarrow> string list \<Rightarrow> error option" where
  "derrors_Wrap err format args =
     (case err of None \<Rightarrow> None | Some e \<Rightarrow> Some (Wrapped format args e))"

text \<open>The two nested loops over modules and packages.\<close>

definition affectedOfModule :: "report_functions \<Rightarrow> report_Module \<Rightarrow> Affected list" where
  "affectedOfModule rf m =
     (let (versions, defaultStatus) = versionRangeToVersionRange (report_Versions m)
      in map (\<lambda>p. \<lparr>Vendor = report_Vendor rf (Module m),
                    Product = Package p,
                    CollectionURL = ''https://pkg.go.dev'',
                    PackageName = Package p,
                    Versions = versions,
                    DefaultStatus = defaultStatus,
                    Platforms = GOOS p,
                    ProgramRoutines = map (\<lambda>symbol. \<lparr>Name = symbol\<rparr>) (Package_AllSymbols rf p)\<rparr>)
             (Packages m))"

text \<open>
  The body of \<open>FromReport\<close>: the record it returns, or the error of the first check that
  fails.
\<close>

definition FromReport_body :: "report_functions \<Rightarrow> Report \<Rightarrow> error + CVERecord" where
  "FromReport_body rf r =
     (case CVEMetadata r of
        None \<Rightarrow> Inl (errors_New ''report missing cve_metadata section'')
      | Some meta \<Rightarrow>
          if CVEMeta_ID meta = [] then Inl (errors_New ''report missing CVE ID'')
          else
            (let description = (if CVEMeta_Description meta = []
                                then Description_String rf (Description r)
                                else CVEMeta_Description meta)
             in if CVEMeta_CWE meta = [] then Inl (errors_New ''report missing CWE'')
                else
                  (let c = \<lparr>CNA_ProviderMetadata = \<lparr>OrgID = GoOrgUUID\<rparr>,
                            CNA_Title = report_RemoveNewlines rf (Summary_String rf (Summary r)),
                            CNA_Descriptions =
                              [\<lparr>Description_Lang = ''en'',
                                Description_Value = report_RemoveNewlines rf description\<rparr>],
                            CNA_ProblemTypes =
                              [\<lparr>ProblemType_Descriptions =
                                  [\<lparr>ProblemType_Lang = ''en'',
                                    ProblemType_Description = CVEMeta_CWE meta\<rparr>]\<rparr>],
                            CNA_Affected = concat (map (affectedOfModule rf) (Modules r)),
                            CNA_References =
                              map (\<lambda>ref. \<lparr>URL = report_URL ref\<rparr>) (References r)
                              @ [\<lparr>URL = report_GoAdvisory rf (ID r)\<rparr>]
                              @ map (\<lambda>ref. \<lparr>URL = ref\<rparr>) (CVEMeta_References meta),
                            CNA_Credits =
                              map (\<lambda>credit. \<lparr>Credit_Lang = ''en'', Credit_Value = credit\<rparr>)
                                (Credits r)\<rparr>
                   in Inr \<lparr>DataType = ''CVE_RECORD'',
                           DataVersion = ''5.0'',
                           CVERecord_Metadata = \<lparr>Metadata_ID = CVEMeta_ID meta\<rparr>,
                           CVERecord_Containers = \<lparr>CNAContainer = c\<rparr>\<rparr>)))"

text \<open>
  \<open>FromReport\<close>: the deferred call of \<open>derrors.Wrap\<close> sees the error that the body
  returns.
\<close>

definition FromReport :: "report_functions \<Rightarrow> Report \<Rightarrow> error + CVERecord" where
  "FromReport rf r =
     (case FromReport_body rf r of
        Inl e \<Rightarrow>
          (case derrors_Wrap (Some e) ''FromReport(%q)'' [ID r] of
             Some e' \<Rightarrow> Inl e'
           | None \<Rightarrow> Inl e)
      | Inr c \<Rightarrow> Inr c)"

section \<open>The default status and the special inputs\<close>

lemma Status_constants_distinct: "StatusAffected \<noteq> StatusUnaffected"
  by (simp add: StatusAffected_def StatusUnaffected_def)

lemma last_index: "versions \<noteq> [] \<Longrightarrow> versions ! (length versions - Suc 0) = last versions"
  by (simp add: last_conv_nth)

text \<open>
  C3. For every input sequence the default status returned by the Normalizer is Affected
  exactly when the sequence is empty or its last range has an empty fixed field, and
  Unaffected otherwise. The empty sequence yields the empty list with Affected, and the
  test on the last range alone selects the encoding: the complement encoding built by the
  loop over unaffected windows when it is empty, one affected range per input range when it
  is not.
\<close>

theorem C3_default_status:
  "(snd (versionRangeToVersionRange versions) = StatusAffected
      \<longleftrightarrow> (versions = [] \<or> report_Fixed (last versions) = []))
   \<and> (snd (versionRangeToVersionRange versions) = StatusUnaffected
      \<longleftrightarrow> \<not> (versions = [] \<or> report_Fixed (last versions) = []))
   \<and> versionRangeToVersionRange [] = ([], StatusAffected)
   \<and> versionRangeToVersionRange versions =
       (if versions = [] then ([], StatusAffected)
        else if report_Fixed (last versions) = []
             then (unaffectedLoop versions zeroVersionRange [], StatusAffected)
             else (map affectedRange versions, StatusUnaffected))"
proof (cases "versions = []")
  case True
  then show ?thesis
    by (simp add: versionRangeToVersionRange_def Status_constants_distinct)
next
  case False
  then show ?thesis
    using Status_constants_distinct Status_constants_distinct [symmetric]
    by (simp add: versionRangeToVersionRange_def last_index)
qed

text \<open>
  C10. The singleton sequence holding one fully open range (introduced and fixed both
  empty) is translated to the empty list with default status Affected, the same output as
  for the empty sequence.
\<close>

theorem C10_fully_open_range:
  "versionRangeToVersionRange [\<lparr>report_Introduced = [], report_Fixed = []\<rparr>] = ([], StatusAffected)
   \<and> versionRangeToVersionRange [\<lparr>report_Introduced = [], report_Fixed = []\<rparr>]
       = versionRangeToVersionRange []"
  by (simp add: versionRangeToVersionRange_def)


section \<open>Properties of the Range Recoverer\<close>

subsection \<open>What the two patterns match\<close>

text \<open>
  A match of the first pattern splits the string into the prefix \<open>>= \<close>, the first
  group, the separator \<open>, < \<close> and the second group; every string of that shape without
  a newline matches, the first group taking as much as it can. The second pattern matches
  exactly the strings made of \<open>< \<close> and a non-empty rest without a newline.
\<close>

lemma splitIntroducedFixed_Some:
  "splitIntroducedFixed k s = Some (a, b) \<Longrightarrow> s = a @ '', < '' @ b \<and> a \<noteq> [] \<and> b \<noteq> []"
proof (induction k)
  case 0
  then show ?case by simp
next
  case (Suc k)
  show ?case
  proof (cases "take 4 (drop (Suc k) s) = '', < '' \<and> drop (Suc k + 4) s \<noteq> []")
    case True
    with Suc.prems have a: "a = take (Suc k) s" and b: "b = drop (Suc k + 4) s"
      by simp_all
    have d: "drop 4 (drop (Suc k) s) = b"
      using b by (simp add: add.commute)
    have t: "take 4 (drop (Suc k) s) = '', < ''"
      using True by blast
    have s: "s = a @ '', < '' @ b"
      unfolding a d [symmetric] t [symmetric] by (simp only: append_take_drop_id)
    from True have "Suc k < length s"
      by (cases "Suc k < length s") auto
    with a have "a \<noteq> []" by auto
    with s b True show ?thesis by simp
  next
    case False
    with Suc show ?thesis by auto
  qed
qed

lemma introducedFixedRE_Some:
  assumes "introducedFixedRE s = Some (a, b)"
  shows "s = ''>= '' @ a @ '', < '' @ b \<and> a \<noteq> [] \<and> b \<noteq> [] \<and> newline \<notin> set s"
proof -
  from assms have p: "take 3 s = ''>= ''" and n: "newline \<notin> set s"
    and sp: "splitIntroducedFixed (length s - 3) (drop 3 s) = Some (a, b)"
    by (auto simp: introducedFixedRE_def split: if_splits)
  from sp have "drop 3 s = a @ '', < '' @ b \<and> a \<noteq> [] \<and> b \<noteq> []"
    by (rule splitIntroducedFixed_Some)
  moreover have "s = take 3 s @ drop 3 s" by simp
  ultimately show ?thesis using p n by metis
qed

lemma splitIntroducedFixed_finds:
  assumes "a \<noteq> []" and "b \<noteq> []" and "length a \<le> k"
  shows "\<exists>a' b'. splitIntroducedFixed k (a @ '', < '' @ b) = Some (a', b') \<and> length a \<le> length a'"
  using assms(3)
proof (induction k)
  case 0
  with assms(1) show ?case by simp
next
  case (Suc k)
  let ?s = "a @ '', < '' @ b"
  show ?case
  proof (cases "take 4 (drop (Suc k) ?s) = '', < '' \<and> drop (Suc k + 4) ?s \<noteq> []")
    case True
    then have "\<not> length ?s \<le> Suc k + 4"
      by (simp only: drop_eq_Nil not_False_eq_True)
    then have "length (take (Suc k) ?s) = Suc k"
      by simp
    moreover have "splitIntroducedFixed (Suc k) ?s = Some (take (Suc k) ?s, drop (Suc k + 4) ?s)"
      using True by (simp only: splitIntroducedFixed.simps simp_thms if_True)
    ultimately show ?thesis
      using Suc.prems by simp
  next
    case False
    have "length a \<noteq> Suc k"
    proof
      assume eq: "length a = Suc k"
      have "take 4 (drop (length a) ?s) = '', < ''"
        by simp
      moreover have "drop (length a + 4) ?s = b"
        by simp
      ultimately have "take 4 (drop (Suc k) ?s) = '', < '' \<and> drop (Suc k + 4) ?s \<noteq> []"
        using assms(2) unfolding eq by simp
      with False show False by blast
    qed
    with Suc.prems have "length a \<le> k" by simp
    then obtain a' b' where "splitIntroducedFixed k ?s = Some (a', b')" "length a \<le> length a'"
      using Suc.IH by blast
    moreover have "splitIntroducedFixed (Suc k) ?s = splitIntroducedFixed k ?s"
      using False by (simp only: splitIntroducedFixed.simps simp_thms if_False)
    ultimately show ?thesis by simp
  qed
qed

lemma introducedFixedRE_matches:
  assumes "a \<noteq> []" and "b \<noteq> []" and "newline \<notin> set a" and "newline \<notin> set b"
  shows "\<exists>a' b'. introducedFixedRE (''>= '' @ a @ '', < '' @ b) = Some (a', b')
                 \<and> length a \<le> length a'"
proof -
  let ?s = "''>= '' @ a @ '', < '' @ b"
  have n: "newline \<notin> set ?s"
    using assms(3,4) by (simp add: newline_def)
  have p: "take 3 ?s = ''>= ''" by simp
  have d: "drop 3 ?s = a @ '', < '' @ b" by simp
  have "length a \<le> length ?s - 3" by simp
  from splitIntroducedFixed_finds [OF assms(1,2) this]
  obtain a' b' where "splitIntroducedFixed (length ?s - 3) (a @ '', < '' @ b) = Some (a', b')"
    and "length a \<le> length a'"
    by blast
  moreover have "introducedFixedRE ?s = splitIntroducedFixed (length ?s - 3) (drop 3 ?s)"
    unfolding introducedFixedRE_def using n p by (simp only: simp_thms if_True)
  ultimately show ?thesis
    unfolding d by simp
qed

lemma fixedRE_Some:
  "fixedRE s = Some b \<longleftrightarrow> s = ''< '' @ b \<and> b \<noteq> [] \<and> newline \<notin> set s"
proof
  assume "fixedRE s = Some b"
  then have t: "take 2 s = ''< ''" and d: "drop 2 s = b" and "b \<noteq> []" and "newline \<notin> set s"
    by (auto simp: fixedRE_def split: if_splits)
  moreover have "s = take 2 s @ drop 2 s" by simp
  ultimately show "s = ''< '' @ b \<and> b \<noteq> [] \<and> newline \<notin> set s"
    by metis
next
  assume "s = ''< '' @ b \<and> b \<noteq> [] \<and> newline \<notin> set s"
  then show "fixedRE s = Some b"
    by (auto simp: fixedRE_def)
qed

subsection \<open>The loop and the single conversion\<close>

text \<open>
  The loop in closed form: the converted ranges and the notes are taken from the entries
  that are not skipped, in their order.
\<close>

lemma convertLoop_closed_form:
  "convertLoop isValid ds vrs vs uvs =
     (vs @ List.map_filter (\<lambda>vr. toVersionRange isValid vr ds)
             (filter (\<lambda>vr. Introduced vr \<noteq> ''n/a'') vrs),
      uvs @ map (\<lambda>vr. toUnsupported vr ds)
             (filter (\<lambda>vr. Introduced vr \<noteq> ''n/a'' \<and> toVersionRange isValid vr ds = None) vrs))"
  by (induction vrs arbitrary: vs uvs) (auto simp: List.map_filter_simps split: option.splits)

lemma convertLoop_count:
  "length (fst (convertLoop isValid ds vrs vs uvs)) + length (snd (convertLoop isValid ds vrs vs uvs))
     + length (filter (\<lambda>vr. Introduced vr = ''n/a'') vrs)
   = length vs + length uvs + length vrs"
  by (induction vrs arbitrary: vs uvs) (auto split: option.splits)

text \<open>
  C4. An external range whose introduced field matches neither repair pattern is converted
  directly exactly when its versionType is the semver tag, lessThanOrEqual is unset,
  introduced and fixed are both valid versions, its status is Affected and the default
  status is Unaffected. The internal range then has the input's introduced bound, with the
  token 0 mapped to the empty string, and the input's fixed bound. This holds for every
  validity predicate.
\<close>

theorem C4_direct_acceptance:
  assumes "introducedFixedRE (Introduced cvr) = None" and "fixedRE (Introduced cvr) = None"
  shows "toVersionRange isValid cvr defaultStatus =
           (if VersionType cvr = typeSemver \<and> LessThanOrEqual cvr = [] \<and>
               isValid (Introduced cvr) \<and> isValid (Fixed cvr) \<and>
               Status cvr = StatusAffected \<and> defaultStatus = StatusUnaffected
            then Some \<lparr>report_Introduced = (if Introduced cvr = ''0'' then [] else Introduced cvr),
                       report_Fixed = Fixed cvr\<rparr>
            else None)"
  using assms by (simp add: toVersionRange_def)

theorem C4_direct_acceptance_witness:
  "introducedFixedRE ''0'' = None \<and> fixedRE ''0'' = None \<and>
   toVersionRange IsValid
     \<lparr>Introduced = ''0'', Fixed = ''1.2.3'', LessThanOrEqual = [], Status = StatusAffected,
      VersionType = typeSemver\<rparr> StatusUnaffected
   = Some \<lparr>report_Introduced = [], report_Fixed = ''1.2.3''\<rparr>"
proof -
  let ?c = "\<lparr>Introduced = ''0'', Fixed = ''1.2.3'', LessThanOrEqual = [], Status = StatusAffected,
      VersionType = typeSemver\<rparr>"
  have a: "introducedFixedRE (Introduced ?c) = None" by (simp add: introducedFixedRE_def)
  have b: "fixedRE (Introduced ?c) = None" by (simp add: fixedRE_def)
  have v0: "IsValid ''0''" by code_simp
  have v1: "IsValid ''1.2.3''" by code_simp
  show ?thesis
    using C4_direct_acceptance [OF a b, of IsValid StatusUnaffected] a b v0 v1 by simp
qed

text \<open>
  C5. Pattern repair comes first and does not look at the status, the versionType,
  lessThanOrEqual, fixed or the default status: when the introduced field matches the
  pattern with both bounds, the result is the internal range of the two groups; otherwise,
  when it matches the pattern with an upper bound only, the result is the internal range
  with an empty introduced bound and the group as fixed bound. The bounds are the groups
  that the regular expression captures. The introduced field \<open>>= 1.0.0, < 2.0.0\<close> gives
  the groups 1.0.0 and 2.0.0, and \<open>< 3.0.0\<close> gives 3.0.0.
\<close>

theorem C5_pattern_repair:
  "(introducedFixedRE s = Some (a, b) \<longrightarrow>
      toVersionRange isValid
        \<lparr>Introduced = s, Fixed = f, LessThanOrEqual = l, Status = st, VersionType = vt\<rparr> ds
      = Some \<lparr>report_Introduced = a, report_Fixed = b\<rparr>)
   \<and> (introducedFixedRE s = None \<and> fixedRE s = Some b \<longrightarrow>
      toVersionRange isValid
        \<lparr>Introduced = s, Fixed = f, LessThanOrEqual = l, Status = st, VersionType = vt\<rparr> ds
      = Some \<lparr>report_Introduced = [], report_Fixed = b\<rparr>)
   \<and> introducedFixedRE ''>= 1.0.0, < 2.0.0'' = Some (''1.0.0'', ''2.0.0'')
   \<and> introducedFixedRE ''< 3.0.0'' = None
   \<and> fixedRE ''< 3.0.0'' = Some ''3.0.0''"
  by (simp add: toVersionRange_def introducedFixedRE_def fixedRE_def newline_def)

theorem C5_pattern_repair_witness:
  "toVersionRange IsValid
     \<lparr>Introduced = ''>= 1.0.0, < 2.0.0'', Fixed = ''9'', LessThanOrEqual = ''8'',
      Status = StatusUnaffected, VersionType = ''custom''\<rparr> StatusAffected
   = Some \<lparr>report_Introduced = ''1.0.0'', report_Fixed = ''2.0.0''\<rparr>
   \<and> toVersionRange IsValid
     \<lparr>Introduced = ''< 3.0.0'', Fixed = [], LessThanOrEqual = ''2.9.9'',
      Status = StatusUnaffected, VersionType = ''custom''\<rparr> StatusAffected
   = Some \<lparr>report_Introduced = [], report_Fixed = ''3.0.0''\<rparr>"
proof -
  have a: "introducedFixedRE ''>= 1.0.0, < 2.0.0'' = Some (''1.0.0'', ''2.0.0'')"
    by (simp add: introducedFixedRE_def newline_def)
  have b: "introducedFixedRE ''< 3.0.0'' = None \<and> fixedRE ''< 3.0.0'' = Some ''3.0.0''"
    by (simp add: introducedFixedRE_def fixedRE_def newline_def)
  show ?thesis
    using a b
      C5_pattern_repair [of "''>= 1.0.0, < 2.0.0''" "''1.0.0''" "''2.0.0''" IsValid "''9''" "''8''"
        StatusUnaffected "''custom''" StatusAffected]
      C5_pattern_repair [of "''< 3.0.0''" _ "''3.0.0''" IsValid "[]" "''2.9.9''"
        StatusUnaffected "''custom''" StatusAffected]
    by simp
qed

text \<open>
  C6 (amended). For every list of external ranges the Recoverer returns a pair of lists
  (it has no error result), and the number of converted ranges plus the number of notes is
  the number of input ranges minus those whose introduced field is the literal \<open>n/a\<close>.
  An entry with lessThanOrEqual set appears as a note whenever its introduced field is
  not \<open>n/a\<close> and matches neither repair pattern.
\<close>

theorem C6_degrade_not_drop:
  "length (fst (convertVersions isValid vrs ds)) + length (snd (convertVersions isValid vrs ds))
     = length vrs - length (filter (\<lambda>vr. Introduced vr = ''n/a'') vrs)
   \<and> (\<forall>vr \<in> set vrs.
         LessThanOrEqual vr \<noteq> [] \<and> Introduced vr \<noteq> ''n/a'' \<and>
         introducedFixedRE (Introduced vr) = None \<and> fixedRE (Introduced vr) = None
         \<longrightarrow> toUnsupported vr ds \<in> set (snd (convertVersions isValid vrs ds)))"
proof
  show "length (fst (convertVersions isValid vrs ds)) + length (snd (convertVersions isValid vrs ds))
     = length vrs - length (filter (\<lambda>vr. Introduced vr = ''n/a'') vrs)"
    using convertLoop_count [of isValid ds vrs "[]" "[]"]
    by (simp add: convertVersions_def)
next
  show "\<forall>vr \<in> set vrs.
         LessThanOrEqual vr \<noteq> [] \<and> Introduced vr \<noteq> ''n/a'' \<and>
         introducedFixedRE (Introduced vr) = None \<and> fixedRE (Introduced vr) = None
         \<longrightarrow> toUnsupported vr ds \<in> set (snd (convertVersions isValid vrs ds))"
    by (auto simp: convertVersions_def convertLoop_closed_form toVersionRange_def)
qed

theorem C6_degrade_not_drop_witness:
  "toUnsupported
     \<lparr>Introduced = ''1.0.0'', Fixed = [], LessThanOrEqual = ''1.5.0'',
      Status = StatusAffected, VersionType = typeSemver\<rparr> StatusUnaffected
   \<in> set (snd (convertVersions IsValid
       [\<lparr>Introduced = ''1.0.0'', Fixed = [], LessThanOrEqual = ''1.5.0'',
         Status = StatusAffected, VersionType = typeSemver\<rparr>,
        \<lparr>Introduced = ''n/a'', Fixed = [], LessThanOrEqual = [],
         Status = StatusAffected, VersionType = typeSemver\<rparr>] StatusUnaffected))
   \<and> length (fst (convertVersions IsValid
       [\<lparr>Introduced = ''1.0.0'', Fixed = [], LessThanOrEqual = ''1.5.0'',
         Status = StatusAffected, VersionType = typeSemver\<rparr>,
        \<lparr>Introduced = ''n/a'', Fixed = [], LessThanOrEqual = [],
         Status = StatusAffected, VersionType = typeSemver\<rparr>] StatusUnaffected))
     + length (snd (convertVersions IsValid
       [\<lparr>Introduced = ''1.0.0'', Fixed = [], LessThanOrEqual = ''1.5.0'',
         Status = StatusAffected, VersionType = typeSemver\<rparr>,
        \<lparr>Introduced = ''n/a'', Fixed = [], LessThanOrEqual = [],
         Status = StatusAffected, VersionType = typeSemver\<rparr>] StatusUnaffected)) = 1"
proof -
  have a: "introducedFixedRE ''1.0.0'' = None" by (simp add: introducedFixedRE_def)
  have b: "fixedRE ''1.0.0'' = None" by (simp add: fixedRE_def)
  show ?thesis
    using a b
      C6_degrade_not_drop [of IsValid
        "[\<lparr>Introduced = ''1.0.0'', Fixed = [], LessThanOrEqual = ''1.5.0'',
           Status = StatusAffected, VersionType = typeSemver\<rparr>,
          \<lparr>Introduced = ''n/a'', Fixed = [], LessThanOrEqual = [],
           Status = StatusAffected, VersionType = typeSemver\<rparr>]" StatusUnaffected]
    by simp
qed

text \<open>
  The claim as first stated fails where a repair pattern matches or the introduced field
  is \<open>n/a\<close>: both entries below have lessThanOrEqual set; the first is converted by
  the second pattern, the second is skipped, and neither leaves a note.
\<close>

theorem C6_counterexample:
  "LessThanOrEqual \<lparr>Introduced = ''< 3.0.0'', Fixed = [], LessThanOrEqual = ''2.5.0'',
       Status = StatusAffected, VersionType = typeSemver\<rparr> \<noteq> []
   \<and> LessThanOrEqual \<lparr>Introduced = ''n/a'', Fixed = [], LessThanOrEqual = ''1.5.0'',
       Status = StatusAffected, VersionType = typeSemver\<rparr> \<noteq> []
   \<and> convertVersions IsValid
       [\<lparr>Introduced = ''< 3.0.0'', Fixed = [], LessThanOrEqual = ''2.5.0'',
         Status = StatusAffected, VersionType = typeSemver\<rparr>,
        \<lparr>Introduced = ''n/a'', Fixed = [], LessThanOrEqual = ''1.5.0'',
         Status = StatusAffected, VersionType = typeSemver\<rparr>] StatusUnaffected
     = ([\<lparr>report_Introduced = [], report_Fixed = ''3.0.0''\<rparr>], [])"
  by (simp add: convertVersions_def toVersionRange_def introducedFixedRE_def fixedRE_def newline_def)

text \<open>
  The text of a note, as the code builds it: in the second case the code formats the
  fixed field, which is empty there, and not lessThanOrEqual.
\<close>

lemma toUnsupported_text:
  "Version (toUnsupported cvr defaultStatus) =
     (if Fixed cvr \<noteq> [] then Status cvr @ '' from '' @ Introduced cvr @ '' before '' @ Fixed cvr
      else if LessThanOrEqual cvr \<noteq> [] then Status cvr @ '' from '' @ Introduced cvr @ '' to ''
      else Status cvr @ '' at '' @ Introduced cvr)
     @ (if defaultStatus \<noteq> [] then '' (default: '' @ defaultStatus @ '')'' else [])"
  by (simp add: toUnsupported_def)

text \<open>
  C7. The note for a range with an empty fixed field and lessThanOrEqual set should read
  \<open><status> from <introduced> to <lessThanOrEqual>\<close>. For the affected range from 1.0.0
  up to and including 1.5.0, with default status unaffected, the code produces a text that
  ends the range with nothing: the bound 1.5.0 is lost.
\<close>

theorem C7_less_than_or_equal_text:
  "Version (toUnsupported
      \<lparr>Introduced = ''1.0.0'', Fixed = [], LessThanOrEqual = ''1.5.0'',
       Status = StatusAffected, VersionType = typeSemver\<rparr> StatusUnaffected)
   = ''affected from 1.0.0 to  (default: unaffected)''"
  by (simp add: toUnsupported_def StatusAffected_def StatusUnaffected_def)

section \<open>The open-tail encoding\<close>








section \<open>Round trip through the Normalizer and the Recoverer\<close>

text \<open>
  What the round trip needs of the validity check, whatever its grammar: it accepts the
  token 0, and a version it accepts starts with a digit, so that it is not the literal
  \<open>n/a\<close> and matches neither repair pattern.
\<close>

lemma digit_no_introducedFixedRE: "s \<noteq> [] \<Longrightarrow> isDigit (hd s) \<Longrightarrow> introducedFixedRE s = None"
  by (cases s) (auto simp: introducedFixedRE_def isDigit_def)

lemma digit_no_fixedRE: "s \<noteq> [] \<Longrightarrow> isDigit (hd s) \<Longrightarrow> fixedRE s = None"
  by (cases s) (auto simp: fixedRE_def isDigit_def)

lemma digit_not_na: "s \<noteq> [] \<Longrightarrow> isDigit (hd s) \<Longrightarrow> s \<noteq> ''n/a''"
  by (cases s) (auto simp: isDigit_def)

lemma affectedRange_recovered:
  assumes zero: "isValid ''0''"
    and digit: "\<And>s. isValid s \<Longrightarrow> s \<noteq> [] \<and> isDigit (hd s)"
    and intro: "report_Introduced vr = [] \<or> isValid (report_Introduced vr)"
    and nonzero: "report_Introduced vr \<noteq> ''0''"
    and fixed: "isValid (report_Fixed vr)"
  shows "Introduced (affectedRange vr) \<noteq> ''n/a'' \<and>
         toVersionRange isValid (affectedRange vr) StatusUnaffected = Some vr"
proof -
  let ?i = "if report_Introduced vr = [] then ''0'' else report_Introduced vr"
  have fixed_nonempty: "report_Fixed vr \<noteq> []"
    using fixed digit by blast
  have ar: "affectedRange vr =
      \<lparr>Introduced = ?i, Fixed = report_Fixed vr, LessThanOrEqual = [],
       Status = StatusAffected, VersionType = typeSemver\<rparr>"
    using fixed_nonempty
    by (simp add: affectedRange_def zeroVersionRange_def versionZero_def Let_def)
  have valid: "isValid ?i"
    using intro zero by auto
  then have d: "?i \<noteq> [] \<and> isDigit (hd ?i)"
    by (rule digit)
  have na: "?i \<noteq> ''n/a''"
    using d digit_not_na by blast
  have re1: "introducedFixedRE ?i = None"
    using d digit_no_introducedFixedRE by blast
  have re2: "fixedRE ?i = None"
    using d digit_no_fixedRE by blast
  have restore: "(if ?i = ''0'' then [] else ?i) = report_Introduced vr"
    using nonzero by simp
  have "toVersionRange isValid (affectedRange vr) StatusUnaffected =
          Some \<lparr>report_Introduced = (if ?i = ''0'' then [] else ?i), report_Fixed = report_Fixed vr\<rparr>"
    unfolding ar toVersionRange_def using re1 re2 valid fixed by simp
  then show ?thesis
    using na restore unfolding ar by simp
qed

lemma convertLoop_affectedRange:
  assumes zero: "isValid ''0''"
    and digit: "\<And>s. isValid s \<Longrightarrow> s \<noteq> [] \<and> isDigit (hd s)"
    and ranges: "\<forall>vr \<in> set versions.
             (report_Introduced vr = [] \<or> isValid (report_Introduced vr)) \<and>
             report_Introduced vr \<noteq> ''0'' \<and> isValid (report_Fixed vr)"
  shows "convertLoop isValid StatusUnaffected (map affectedRange versions) vs uvs
         = (vs @ versions, uvs)"
  using ranges
proof (induction versions arbitrary: vs)
  case Nil
  then show ?case by simp
next
  case (Cons vr versions)
  then have "Introduced (affectedRange vr) \<noteq> ''n/a'' \<and>
         toVersionRange isValid (affectedRange vr) StatusUnaffected = Some vr"
    using affectedRange_recovered [of isValid vr, OF zero digit] by simp
  with Cons show ?case by simp
qed

lemma round_trip_for_any_validity:
  assumes zero: "isValid ''0''"
    and digit: "\<And>s. isValid s \<Longrightarrow> s \<noteq> [] \<and> isDigit (hd s)"
    and ranges: "\<forall>vr \<in> set versions.
             (report_Introduced vr = [] \<or> isValid (report_Introduced vr)) \<and>
             report_Introduced vr \<noteq> ''0'' \<and> isValid (report_Fixed vr)"
  shows "convertVersions isValid (fst (versionRangeToVersionRange versions))
           (snd (versionRangeToVersionRange versions)) = (versions, [])"
proof (cases "versions = []")
  case True
  then show ?thesis
    by (simp add: versionRangeToVersionRange_def convertVersions_def)
next
  case False
  then have "last versions \<in> set versions" by simp
  with ranges have "isValid (report_Fixed (last versions))" by blast
  then have "report_Fixed (last versions) \<noteq> []"
    using digit by blast
  with False have "versionRangeToVersionRange versions
      = (map affectedRange versions, StatusUnaffected)"
    by (simp add: versionRangeToVersionRange_def last_index)
  then show ?thesis
    using convertLoop_affectedRange [of isValid versions "[]" "[]", OF zero digit ranges]
    by (simp add: convertVersions_def)
qed

text \<open>
  The code relies on the token 0 being valid: with a validity check that rejects it, a
  range without introduced bound does not come back.
\<close>

lemma round_trip_needs_valid_zero:
  assumes "\<not> isValid ''0''" and "f \<noteq> []"
  shows "convertVersions isValid
           (fst (versionRangeToVersionRange [\<lparr>report_Introduced = [], report_Fixed = f\<rparr>]))
           (snd (versionRangeToVersionRange [\<lparr>report_Introduced = [], report_Fixed = f\<rparr>]))
         = ([], [toUnsupported (affectedRange \<lparr>report_Introduced = [], report_Fixed = f\<rparr>)
                   StatusUnaffected])"
  using assms
  by (simp add: versionRangeToVersionRange_def convertVersions_def affectedRange_def
      zeroVersionRange_def versionZero_def toVersionRange_def introducedFixedRE_def fixedRE_def)

text \<open>The modelled grammar meets both requirements.\<close>

lemma parseInt_Some_digit: "parseInt v = Some (t, r) \<Longrightarrow> v \<noteq> [] \<and> isDigit (hd v)"
  by (cases v) (auto simp: parseInt_def Let_def split: if_splits)

lemma IsValid_starts_with_digit: "IsValid v \<Longrightarrow> v \<noteq> [] \<and> isDigit (hd v)"
  unfolding IsValid_def using parseInt_Some_digit [of v]
  by (cases "parseInt v") auto

lemma IsValid_zero: "IsValid ''0''"
  by code_simp

text \<open>
  C1 (amended). For every sequence of internal ranges in which every fixed bound is a
  valid version, every introduced bound is empty or a valid version, and no introduced
  bound is the token 0, the Recoverer applied to the output of the Normalizer returns the
  sequence itself and no note.
\<close>

theorem C1_round_trip:
  assumes "\<forall>vr \<in> set versions.
             (report_Introduced vr = [] \<or> IsValid (report_Introduced vr)) \<and>
             report_Introduced vr \<noteq> ''0'' \<and> IsValid (report_Fixed vr)"
  shows "convertVersions IsValid (fst (versionRangeToVersionRange versions))
           (snd (versionRangeToVersionRange versions)) = (versions, [])"
  using round_trip_for_any_validity [of IsValid versions, OF IsValid_zero IsValid_starts_with_digit assms]
  by simp

theorem C1_round_trip_witness:
  "convertVersions IsValid
     (fst (versionRangeToVersionRange
        [\<lparr>report_Introduced = [], report_Fixed = ''1.2.0''\<rparr>,
         \<lparr>report_Introduced = ''1.3.0'', report_Fixed = ''1.4.1''\<rparr>]))
     (snd (versionRangeToVersionRange
        [\<lparr>report_Introduced = [], report_Fixed = ''1.2.0''\<rparr>,
         \<lparr>report_Introduced = ''1.3.0'', report_Fixed = ''1.4.1''\<rparr>]))
   = ([\<lparr>report_Introduced = [], report_Fixed = ''1.2.0''\<rparr>,
       \<lparr>report_Introduced = ''1.3.0'', report_Fixed = ''1.4.1''\<rparr>], [])"
proof -
  have v: "IsValid ''1.2.0''" "IsValid ''1.3.0''" "IsValid ''1.4.1''"
    by code_simp+
  show ?thesis
    using v C1_round_trip [of "[\<lparr>report_Introduced = [], report_Fixed = ''1.2.0''\<rparr>,
         \<lparr>report_Introduced = ''1.3.0'', report_Fixed = ''1.4.1''\<rparr>]"]
    by simp
qed

text \<open>
  The claim as first stated fails for an introduced bound written as the token 0, a valid
  version: the Normalizer keeps it, and the Recoverer reads it back as the empty bound.
\<close>

theorem C1_counterexample:
  "IsValid ''0'' \<and> IsValid ''1.0.0''
   \<and> versionRangeToVersionRange [\<lparr>report_Introduced = ''0'', report_Fixed = ''1.0.0''\<rparr>]
       = ([\<lparr>Introduced = ''0'', Fixed = ''1.0.0'', LessThanOrEqual = [],
            Status = StatusAffected, VersionType = typeSemver\<rparr>], StatusUnaffected)
   \<and> convertVersions IsValid
       [\<lparr>Introduced = ''0'', Fixed = ''1.0.0'', LessThanOrEqual = [],
         Status = StatusAffected, VersionType = typeSemver\<rparr>] StatusUnaffected
       = ([\<lparr>report_Introduced = [], report_Fixed = ''1.0.0''\<rparr>], [])
   \<and> convertVersions IsValid
       (fst (versionRangeToVersionRange [\<lparr>report_Introduced = ''0'', report_Fixed = ''1.0.0''\<rparr>]))
       (snd (versionRangeToVersionRange [\<lparr>report_Introduced = ''0'', report_Fixed = ''1.0.0''\<rparr>]))
       \<noteq> ([\<lparr>report_Introduced = ''0'', report_Fixed = ''1.0.0''\<rparr>], [])"
proof -
  have v0: "IsValid ''0''" by code_simp
  have v1: "IsValid ''1.0.0''" by code_simp
  have re: "introducedFixedRE ''0'' = None" "fixedRE ''0'' = None"
    by (simp_all add: introducedFixedRE_def fixedRE_def)
  have n: "versionRangeToVersionRange [\<lparr>report_Introduced = ''0'', report_Fixed = ''1.0.0''\<rparr>]
       = ([\<lparr>Introduced = ''0'', Fixed = ''1.0.0'', LessThanOrEqual = [],
            Status = StatusAffected, VersionType = typeSemver\<rparr>], StatusUnaffected)"
    by (simp add: versionRangeToVersionRange_def affectedRange_def zeroVersionRange_def)
  have r: "convertVersions IsValid
       [\<lparr>Introduced = ''0'', Fixed = ''1.0.0'', LessThanOrEqual = [],
         Status = StatusAffected, VersionType = typeSemver\<rparr>] StatusUnaffected
       = ([\<lparr>report_Introduced = [], report_Fixed = ''1.0.0''\<rparr>], [])"
    using v0 v1 re by (simp add: convertVersions_def toVersionRange_def)
  show ?thesis
    using v0 v1 n r by simp
qed

text \<open>
  A range without fixed bound before the last one does not come back either: the empty
  fixed bound is not a valid version, and the range is turned into a note.
\<close>

lemma round_trip_open_range_in_the_middle:
  "convertVersions IsValid
     (fst (versionRangeToVersionRange
        [\<lparr>report_Introduced = ''1.0.0'', report_Fixed = []\<rparr>,
         \<lparr>report_Introduced = ''2.0.0'', report_Fixed = ''3.0.0''\<rparr>]))
     (snd (versionRangeToVersionRange
        [\<lparr>report_Introduced = ''1.0.0'', report_Fixed = []\<rparr>,
         \<lparr>report_Introduced = ''2.0.0'', report_Fixed = ''3.0.0''\<rparr>]))
   = ([\<lparr>report_Introduced = ''2.0.0'', report_Fixed = ''3.0.0''\<rparr>],
      [\<lparr>Version = ''affected at 1.0.0 (default: unaffected)'', Type = ''cve_version_range''\<rparr>])"
proof -
  have v: "IsValid ''1.0.0''" "IsValid ''2.0.0''" "IsValid ''3.0.0''" "\<not> IsValid []"
    by code_simp+
  have re: "introducedFixedRE ''1.0.0'' = None" "fixedRE ''1.0.0'' = None"
     "introducedFixedRE ''2.0.0'' = None" "fixedRE ''2.0.0'' = None"
    by (simp_all add: introducedFixedRE_def fixedRE_def)
  show ?thesis
    using v re
    by (simp add: versionRangeToVersionRange_def affectedRange_def zeroVersionRange_def
        convertVersions_def toVersionRange_def toUnsupported_def StatusAffected_def
        StatusUnaffected_def)
qed

section \<open>Path resolution\<close>

lemma HasSuffix_suffix: "HasSuffix s suff \<longleftrightarrow> suffix suff s"
proof
  assume "HasSuffix s suff"
  then have "s = take (length s - length suff) s @ suff"
    by (metis HasSuffix_def append_take_drop_id)
  then show "suffix suff s"
    by (metis suffixI)
next
  assume "suffix suff s"
  then obtain p where "s = p @ suff"
    by (auto simp: suffix_def)
  then show "HasSuffix s suff"
    by (simp add: HasSuffix_def)
qed

lemma resolvedPath_order:
  "resolvedPath a hint =
     (if isSet (PackageName a) then PackageName a
      else if isSet (Product a) then Product a
      else if isSet (Vendor a) then Vendor a
      else hint)"
  by (simp add: resolvedPath_def isSet_def)

text \<open>
  C8. The package path of the module that affectedToModule returns is the resolved path
  (the package name when it is set and not \<open>n/a\<close>, else the product, else the vendor,
  else the module path hint), replaced by the hint whenever the resolved path is a suffix
  of the hint. Resolving the package golang.org/x/foo/bar against the same hint gives the
  hint, and an entry with empty package name, product and vendor gives the hint.
\<close>

theorem C8_path_resolution:
  "map Package (Packages (affectedToModule isValid std a hint)) =
     [if suffix (resolvedPath a hint) hint then hint else resolvedPath a hint]
   \<and> map Package (Packages (affectedToModule isValid std
         (a\<lparr>PackageName := ''golang.org/x/foo/bar''\<rparr>) ''golang.org/x/foo/bar''))
       = [''golang.org/x/foo/bar'']
   \<and> map Package (Packages (affectedToModule isValid std
         (a\<lparr>PackageName := [], Product := [], Vendor := []\<rparr>) hint))
       = [hint]"
proof -
  have general: "map Package (Packages (affectedToModule isValid std b h)) =
     [if suffix (resolvedPath b h) h then h else resolvedPath b h]" for b h
    by (simp add: affectedToModule_def Let_def resolvedPath_order HasSuffix_suffix
        split: prod.splits)
  have ex1: "map Package (Packages (affectedToModule isValid std
         (a\<lparr>PackageName := ''golang.org/x/foo/bar''\<rparr>) ''golang.org/x/foo/bar''))
       = [''golang.org/x/foo/bar'']"
    unfolding general by (simp add: resolvedPath_def)
  have ex2: "map Package (Packages (affectedToModule isValid std
         (a\<lparr>PackageName := [], Product := [], Vendor := []\<rparr>) hint)) = [hint]"
    unfolding general by (simp add: resolvedPath_def)
  show ?thesis
    using general ex1 ex2 by blast
qed

section \<open>Errors of the Record Assembler\<close>

text \<open>
  C9. FromReport returns an error, and then no record, exactly when the report has no
  CVE metadata section, or the CVE identifier in it is empty, or the CWE in it is empty.
  The error wraps the error of the first failed check with the format of FromReport and
  the report identifier.
\<close>

theorem C9_missing_required_field:
  "(isl (FromReport rf r) \<longleftrightarrow>
      (case CVEMetadata r of
         None \<Rightarrow> True
       | Some meta \<Rightarrow> CVEMeta_ID meta = [] \<or> CVEMeta_CWE meta = []))
   \<and> (isl (FromReport rf r) \<longrightarrow>
        FromReport rf r =
          Inl (Wrapped ''FromReport(%q)'' [ID r]
                (errors_New
                  (case CVEMetadata r of
                     None \<Rightarrow> ''report missing cve_metadata section''
                   | Some meta \<Rightarrow>
                       if CVEMeta_ID meta = [] then ''report missing CVE ID''
                       else ''report missing CWE''))))"
  by (simp add: FromReport_def FromReport_body_def derrors_Wrap_def Let_def
      split: option.splits)

theorem C9_missing_required_field_witness:
  "FromReport
     \<lparr>report_RemoveNewlines = (\<lambda>s. s), report_Vendor = (\<lambda>s. s),
      report_GoAdvisory = (\<lambda>s. s), Summary_String = (\<lambda>s. s),
      Description_String = (\<lambda>s. s), Package_AllSymbols = Symbols\<rparr>
     \<lparr>ID = ''GO-2024-0001'', Modules = [], Summary = ''s'', Description = ''d'', Credits = [],
      References = [],
      CVEMetadata = Some \<lparr>CVEMeta_ID = ''CVE-2024-0001'', CVEMeta_CWE = [],
                          CVEMeta_Description = [], CVEMeta_References = []\<rparr>\<rparr>
   = Inl (Wrapped ''FromReport(%q)'' [''GO-2024-0001''] (errors_New ''report missing CWE''))"
  using C9_missing_required_field [of
     "\<lparr>report_RemoveNewlines = (\<lambda>s. s), report_Vendor = (\<lambda>s. s),
      report_GoAdvisory = (\<lambda>s. s), Summary_String = (\<lambda>s. s),
      Description_String = (\<lambda>s. s), Package_AllSymbols = Symbols\<rparr>"
     "\<lparr>ID = ''GO-2024-0001'', Modules = [], Summary = ''s'', Description = ''d'', Credits = [],
      References = [],
      CVEMetadata = Some \<lparr>CVEMeta_ID = ''CVE-2024-0001'', CVEMeta_CWE = [],
                          CVEMeta_Description = [], CVEMeta_References = []\<rparr>\<rparr>"]
  by simp

end
